theory Spec2Isabelle
  imports Complex_Main "HOL-Library.Multiset"
begin

section \<open>Python values and exceptions\<close>

text \<open>
  The library is pure Python over \<open>int\<close> and \<open>float\<close>. Python's unbounded integers are
  \<^typ>\<open>int\<close>. Python's \<open>float\<close> is modelled by \<^typ>\<open>real\<close>: \<open>math.sqrt\<close> is the real
  square root and \<open>/\<close> is exact division, so IEEE double rounding (which starts to matter
  for integers beyond \<open>2^52\<close>) and the \<open>OverflowError\<close> of converting an integer of
  \<open>2^1024\<close> or more to a float are outside the model. Every exception the code can raise is
  a value of \<open>py_error\<close>; a function that can raise returns \<open>py_error + 'a\<close>.
  The \<open>functools.lru_cache\<close> decorators memoise pure functions and do not change results.
\<close>

datatype py_error = ValueError | IndexError | ZeroDivisionError | NotImplementedError

text \<open>\<open>math.sqrt(x)\<close> on an integer: \<open>ValueError\<close> (math domain error) for negative \<open>x\<close>.\<close>

definition math_sqrt :: "int \<Rightarrow> py_error + real" where
  "math_sqrt x = (if x < 0 then Inl ValueError else Inr (sqrt (real_of_int x)))"

text \<open>\<open>int(r)\<close> on a float truncates toward zero; \<open>math.floor(r)\<close> rounds down.\<close>

definition py_int :: "real \<Rightarrow> int" where
  "py_int r = (if r < 0 then \<lceil>r\<rceil> else \<lfloor>r\<rfloor>)"

definition math_floor :: "real \<Rightarrow> int" where
  "math_floor r = \<lfloor>r\<rfloor>"

text \<open>True division \<open>a / b\<close> and the remainder \<open>a % b\<close> raise on a zero divisor.\<close>

definition truediv :: "real \<Rightarrow> real \<Rightarrow> py_error + real" where
  "truediv a b = (if b = 0 then Inl ZeroDivisionError else Inr (a / b))"


text \<open>
  \<open>sorted(xs, key=key, reverse=reverse)\<close>: a stable sort; with \<open>reverse\<close> the order is
  reversed while equal elements keep their original order. \<open>key=None\<close> compares the
  integers themselves.
\<close>

definition py_sorted :: "(int \<Rightarrow> 'k::linorder) option \<Rightarrow> bool \<Rightarrow> int list \<Rightarrow> int list" where
  "py_sorted key reverse xs =
     (case key of
        None \<Rightarrow> (if reverse then rev (sort (rev xs)) else sort xs)
      | Some f \<Rightarrow> (if reverse then rev (sort_key f (rev xs)) else sort_key f xs))"

text \<open>
  \<open>max(c, key=f)\<close>: \<open>ValueError\<close> on an empty iterable; otherwise the keys are computed in
  iteration order (an exception of \<open>f\<close> propagates) and a later item replaces the current
  best only when its key is strictly greater, so the first maximal item is returned.
\<close>

fun max_loop :: "(int \<Rightarrow> py_error + real) \<Rightarrow> int \<Rightarrow> real \<Rightarrow> int list \<Rightarrow> py_error + int" where
  "max_loop f best bk [] = Inr best"
| "max_loop f best bk (y # ys) =
     (case f y of
        Inl e \<Rightarrow> Inl e
      | Inr k \<Rightarrow> (if k > bk then max_loop f y k ys else max_loop f best bk ys))"

fun py_max_key :: "(int \<Rightarrow> py_error + real) \<Rightarrow> int list \<Rightarrow> py_error + int" where
  "py_max_key f [] = Inl ValueError"
| "py_max_key f (x # xs) = (case f x of Inl e \<Rightarrow> Inl e | Inr k \<Rightarrow> max_loop f x k xs)"

section \<open>squarish.py\<close>

text \<open>
  \<open>is_square\<close>: \<open>int(math.sqrt(x)) == math.sqrt(x)\<close>, with the \<open>ValueError\<close> of a negative
  argument caught and turned into \<open>False\<close>.
\<close>

definition is_square :: "int \<Rightarrow> bool" where
  "is_square x = (case math_sqrt x of Inl e \<Rightarrow> False | Inr s \<Rightarrow> real_of_int (py_int s) = s)"

text \<open>
  The loop \<open>for d in range(mid, 0, -1)\<close> of \<open>squarish_factors\<close>: it only visits \<open>d \<ge> 1\<close>, so
  \<open>x % d\<close> and \<open>x / d\<close> cannot raise there; when the range is exhausted the function raises
  \<open>ValueError("X must be a positive integer.")\<close>.
\<close>

function squarish_scan :: "int \<Rightarrow> int \<Rightarrow> py_error + int \<times> int" where
  "squarish_scan x d =
     (if d \<le> 0 then Inl ValueError
      else if x mod d = 0 then Inr (py_int (real_of_int x / real_of_int d), d)
      else squarish_scan x (d - 1))"
  by pat_completeness auto
termination
  by (relation "measure (\<lambda>(x, d). nat d)") auto

definition squarish_factors :: "int \<Rightarrow> py_error + int \<times> int" where
  "squarish_factors x =
     (if is_square x then
        (case math_sqrt x of Inl e \<Rightarrow> Inl e | Inr s \<Rightarrow> Inr (py_int s, py_int s))
      else
        (case math_sqrt x of Inl e \<Rightarrow> Inl e | Inr s \<Rightarrow> squarish_scan x (math_floor s)))"

definition squareness :: "int \<Rightarrow> py_error + real" where
  "squareness x =
     (if x = 0 then Inr 1
      else case math_sqrt x of
        Inl e \<Rightarrow> Inl e
      | Inr sr \<Rightarrow>
          (case squarish_factors x of
             Inl e \<Rightarrow> Inl e
           | Inr (m, n) \<Rightarrow>
               (case truediv sr (real_of_int m) of
                  Inl e \<Rightarrow> Inl e
                | Inr a \<Rightarrow>
                    (case truediv (real_of_int n) sr of
                       Inl e \<Rightarrow> Inl e
                     | Inr b \<Rightarrow> Inr ((a + b) / 2)))))"

text \<open>
  \<open>squarest_of\<close>: the first element of the sorted perfect squares of \<open>c\<close>; the
  \<open>IndexError\<close> of \<open>[0]\<close> on an empty list is caught and answered by
  \<open>max(c, key=squareness)\<close>. The collection is a list, iterated twice; the
  parameter \<open>sort_key\<close> is called \<open>key\<close> here.
\<close>

definition squarest_of :: "int list \<Rightarrow> (int \<Rightarrow> 'k::linorder) option \<Rightarrow> bool \<Rightarrow> py_error + int" where
  "squarest_of c key reverse_on_key =
     (case py_sorted key reverse_on_key (filter is_square c) of
        x # _ \<Rightarrow> Inr x
      | [] \<Rightarrow> py_max_key squareness c)"

text \<open>\<open>squarest_total\<close>: \<open>range(m, m+n+1)\<close> is the list \<open>[m..m+n]\<close>.\<close>

definition squarest_total :: "int \<Rightarrow> int \<Rightarrow> bool \<Rightarrow> py_error + int" where
  "squarest_total m n return_greatest =
     squarest_of [m..m + n] (None :: (int \<Rightarrow> int) option) return_greatest"


section \<open>arbitrary\_ratios.py\<close>

text \<open>A target ratio is a number or a pair \<open>(p, q)\<close>.\<close>

datatype ratio = RNumber real | RTuple int int

text \<open>\<open>fittest_of\<close> has no body but \<open>raise NotImplementedError\<close>.\<close>

definition fittest_of :: "int list \<Rightarrow> ratio \<Rightarrow> (int \<Rightarrow> 'k::linorder) option \<Rightarrow> bool \<Rightarrow> py_error + int" where
  "fittest_of c r key reverse_on_key = Inl NotImplementedError"

definition fittest_total :: "int \<Rightarrow> int \<Rightarrow> ratio \<Rightarrow> bool \<Rightarrow> py_error + int" where
  "fittest_total m n r return_greatest =
     fittest_of [m..m + n] r (None :: (int \<Rightarrow> int) option) return_greatest"



section \<open>The selector in the words of the specification\<close>



section \<open>Square roots of integers\<close>

text \<open>The only exception of \<open>math_sqrt\<close> is the \<open>ValueError\<close> that \<open>is_square\<close> catches.\<close>

lemma math_sqrt_error: "math_sqrt x = Inl e \<Longrightarrow> e = ValueError"
  by (simp add: math_sqrt_def split: if_splits)

lemma floor_sqrt_between:
  assumes "0 \<le> n" and "n * n \<le> x" and "x < (n + 1) * (n + 1)"
  shows "\<lfloor>sqrt (real_of_int x)\<rfloor> = n"
proof -
  have "real_of_int n = sqrt (real_of_int (n * n))"
    using assms(1) by (simp add: real_sqrt_mult)
  also have "\<dots> \<le> sqrt (real_of_int x)"
    using assms(2) by (simp only: real_sqrt_le_iff of_int_le_iff)
  finally have lo: "real_of_int n \<le> sqrt (real_of_int x)" .
  have "sqrt (real_of_int x) < sqrt (real_of_int ((n + 1) * (n + 1)))"
    using assms(3) by (simp only: real_sqrt_less_iff of_int_less_iff)
  also have "\<dots> = real_of_int (n + 1)"
    using assms(1) by (simp add: real_sqrt_mult)
  finally have hi: "sqrt (real_of_int x) < real_of_int n + 1" by simp
  from lo hi show ?thesis by (simp add: floor_eq_iff)
qed


lemma is_square_iff: "is_square x \<longleftrightarrow> (\<exists>n\<ge>0. x = n * n)"
proof
  assume sq: "is_square x"
  then have nn: "0 \<le> x"
    by (auto simp: is_square_def math_sqrt_def split: if_splits)
  let ?s = "sqrt (real_of_int x)"
  have s0: "0 \<le> ?s" using nn by simp
  from sq nn s0 have eq: "real_of_int \<lfloor>?s\<rfloor> = ?s"
    by (simp add: is_square_def math_sqrt_def py_int_def)
  have "real_of_int (\<lfloor>?s\<rfloor> * \<lfloor>?s\<rfloor>) = real_of_int \<lfloor>?s\<rfloor> * real_of_int \<lfloor>?s\<rfloor>"
    by (simp only: of_int_mult)
  also have "\<dots> = ?s * ?s"
    by (simp only: eq)
  also have "\<dots> = real_of_int x" using nn by simp
  finally have "x = \<lfloor>?s\<rfloor> * \<lfloor>?s\<rfloor>" by (simp only: of_int_eq_iff)
  moreover have "0 \<le> \<lfloor>?s\<rfloor>" using s0 by simp
  ultimately show "\<exists>n\<ge>0. x = n * n" by blast
next
  assume "\<exists>n\<ge>0. x = n * n"
  then obtain n where n: "0 \<le> n" "x = n * n" by blast
  then show "is_square x"
    by (simp add: is_square_def math_sqrt_def py_int_def real_sqrt_mult)
qed

lemma not_square_between:
  assumes "0 \<le> n" and "n * n < x" and "x < (n + 1) * (n + 1)"
  shows "\<not> is_square x"
proof
  assume "is_square x"
  then obtain k where k: "0 \<le> k" "x = k * k" unfolding is_square_iff by blast
  have "n < k"
  proof (rule ccontr)
    assume "\<not> n < k"
    then have "k \<le> n" by simp
    then have "k * k \<le> n * n" using k(1) by (intro mult_mono) auto
    with assms(2) k(2) show False by simp
  qed
  then have "n + 1 \<le> k" by simp
  then have "(n + 1) * (n + 1) \<le> k * k" using assms(1) by (intro mult_mono) auto
  with assms(3) k(2) show False by simp
qed

section \<open>The factor-pair finder\<close>














section \<open>Worked values\<close>

lemma squarish_factors_between:
  assumes "0 \<le> n" and "n * n < x" and "x < (n + 1) * (n + 1)"
  shows "squarish_factors x = squarish_scan x n"
proof -
  have ns: "\<not> is_square x" using assms by (rule not_square_between)
  have fl: "\<lfloor>sqrt (real_of_int x)\<rfloor> = n"
    using assms by (intro floor_sqrt_between) simp_all
  have "0 \<le> x" using assms(1,2) by (smt (verit) mult_nonneg_nonneg)
  then show ?thesis
    by (simp add: squarish_factors_def ns math_sqrt_def math_floor_def fl not_less)
qed












lemma squarish_factors_20: "squarish_factors 20 = Inr (5, 4)"
proof -
  have "squarish_factors 20 = squarish_scan 20 4"
    by (rule squarish_factors_between) simp_all
  then show ?thesis by (simp add: py_int_def)
qed

lemma squareness_20: "squareness 20 = Inr (2 / sqrt 5)"
proof -
  have "sqrt 20 = sqrt (4 * 5)" by simp
  also have "\<dots> = 2 * sqrt 5" by (simp only: real_sqrt_mult) simp
  finally have s: "sqrt 20 = 2 * sqrt 5" .
  have p: "sqrt 5 * sqrt 5 = 5" by simp
  have "squareness 20 = Inr ((sqrt 20 / 5 + 4 / sqrt 20) / 2)"
    by (simp add: squareness_def squarish_factors_20 math_sqrt_def truediv_def)
  also have "(sqrt 20 / 5 + 4 / sqrt 20) / 2 = 2 / sqrt 5"
    unfolding s using p by (simp add: field_simps)
  finally show ?thesis .
qed

lemma two_over_sqrt5_bounds: "89 / 100 < 2 / sqrt 5 \<and> 2 / sqrt 5 < 9 / 10"
proof -
  have lo: "sqrt 5 < 200 / 89"
    by (rule real_less_lsqrt) (simp_all add: power2_eq_square)
  have hi: "20 / 9 < sqrt 5"
    by (rule real_less_rsqrt) (simp add: power2_eq_square)
  have pos: "0 < sqrt 5" by simp
  from lo hi pos show ?thesis by (simp add: field_simps)
qed

section \<open>Factor pairs and squareness scores\<close>







text \<open>
  C5 as stated fails: the score of 20 is \<open>2 / \<surd>5\<close>, about 0.894, which is below 0.9.
\<close>

theorem squareness_20_below_nine_tenths:
  "squareness 20 = Inr (2 / sqrt 5) \<and> \<not> (9 / 10 < 2 / sqrt 5)"
  using squareness_20 two_over_sqrt5_bounds by simp

text \<open>
  C5 amended. \<open>squarish_factors(20)\<close> returns \<open>(5, 4)\<close> and \<open>squareness(20)\<close> is \<open>2 / \<surd>5\<close>,
  strictly between 0.89 and 0.9 (so strictly between 0 and 1, but not above 0.9).
\<close>

theorem factors_and_squareness_20:
  "squarish_factors 20 = Inr (5, 4) \<and> squareness 20 = Inr (2 / sqrt 5)
   \<and> 89 / 100 < 2 / sqrt 5 \<and> 2 / sqrt 5 < 9 / 10"
  using squarish_factors_20 squareness_20 two_over_sqrt5_bounds by simp

section \<open>The selector\<close>




























section \<open>Error behaviour\<close>





text \<open>
  C6. The docstring promises \<open>fittest_total(8, 4, (3, 4)) = 12\<close>, but \<open>fittest_of\<close> is a
  stub: the call raises \<open>NotImplementedError\<close> and returns nothing.
\<close>

theorem fittest_total_not_implemented:
  "fittest_total 8 4 (RTuple 3 4) False = Inl NotImplementedError"
  by (simp add: fittest_total_def fittest_of_def)



end
